theory Spec2Isabelle
  imports Complex_Main "HOL-Library.Log_Nat"
begin

section \<open>Data model\<close>

text \<open>
  The backend keeps five collections of documents: gems, orders, order items, cart items
  and users. A collection is a list of documents; every document carries its \<open>_id\<close>.
  The database keeps \<open>_id\<close> unique inside a collection, which the theorems below state as
  \<open>distinct (map gem_id (gems s))\<close> where they need it.

  An ObjectId is kept as the 24 lower-case hex digits that \<open>toString()\<close> prints. A
  request names a gem by a string; a query casts the string to an ObjectId, and the case
  of its hex digits is lost in the cast. A string that passed \<open>isMongoId\<close> is 24 hex
  digits, so the cast of a validated string is its lower-case form.

  Stock and quantities are the integers that the doubles of the program hold: a sum
  of two of them is rounded to 53 significant bits where JavaScript adds them, and
  prices and totals are reals with the double-precision operations of the engine
  taken as parameters. Timestamps are milliseconds. Of a gem, the fields that the
  handlers below read or write are kept.
\<close>

type_synonym oid = string

definition lower_hex :: "char \<Rightarrow> char" where
  "lower_hex c = (case map_of (zip ''ABCDEF'' ''abcdef'') c of Some d \<Rightarrow> d | None \<Rightarrow> c)"

definition castObjectId :: "string \<Rightarrow> oid" where
  "castObjectId str = map lower_hex str"

record gem =
  gem_id :: oid
  name :: string
  gem_price :: real
  stock :: int
  availability :: bool

datatype order_status = pending | confirmed | processing | shipped | delivered | cancelled

datatype payment_method = pay_cod | pay_online | pay_card | pay_upi

record shipping_address =
  firstName :: string
  lastName :: string
  addr_email :: string
  addr_phone :: string
  address :: string
  city :: string
  state :: string
  pincode :: string

record order =
  order_id :: oid
  orderId :: string
  userId :: oid
  status :: order_status
  total :: real
  shippingAddress :: shipping_address
  paymentMethod :: payment_method
  orderNotes :: "string option"
  trackingNumber :: "string option"
  createdAt :: nat
  updatedAt :: nat

record order_item =
  oi_orderId :: oid
  oi_gemId :: oid
  oi_quantity :: int
  oi_price :: real

record cart_item =
  ci_id :: oid
  ci_userId :: oid
  ci_gemId :: oid
  ci_quantity :: int
  ci_createdAt :: nat

record user =
  user_id :: oid
  u_name :: string
  u_email :: string
  u_phone :: "string option"
  u_password :: string

record db =
  gems :: "gem list"
  orders :: "order list"
  orderItems :: "order_item list"
  cartItems :: "cart_item list"
  users :: "user list"

subsection \<open>Requests and responses\<close>

text \<open>
  Every request record carries the outcome of \<open>validationResult(req)\<close>, the list of
  messages the validation middleware produced; the handlers only test it for emptiness.
  The remaining fields are the body as the handler destructures it.

  The validators look at the text of a value and convert nothing, so a quantity that
  passed \<open>isInt\<close> can be a JSON number or a string of digits. The order handler only
  compares and multiplies the quantity and the price of a line, which turns either
  form into its number; a line carries these numbers. The cart handler adds the
  quantity with \<open>+=\<close>, which tells the two forms apart; a cart request carries the
  value as it came, a number or a string.
\<close>

datatype jsval = JNum int | JStr string

record item =
  gemId :: string
  quantity :: int
  price :: real

record order_req =
  errors :: "string list"
  items :: "item list"
  req_shippingAddress :: shipping_address
  req_paymentMethod :: payment_method
  req_orderNotes :: "string option"

record cart_req =
  cr_errors :: "string list"
  cr_gemId :: string
  cr_quantity :: jsval

record login_req =
  l_errors :: "string list"
  l_email :: string
  l_password :: string

text \<open>
  What a response carries besides \<open>success\<close> and \<open>message\<close>: nothing, the validation
  errors, or the payload of the successful operation. A response without a \<open>message\<close>
  field has \<open>None\<close> there.
\<close>

datatype body =
    NoData
  | Errors "string list"
  | OrderCreated string order_status real nat
  | OrderDetails order "(order_item \<times> gem option) list"
  | CartItemData oid oid int nat
  | LoginData string oid string string "string option"

record response =
  http_status :: nat
  success :: bool
  message :: "string option"
  data :: body

text \<open>
  The values a handler takes from its environment: the \<open>_id\<close> the driver generates for a
  new document, the clock, the five characters
  \<open>Math.random().toString(36).substr(2, 5).toUpperCase()\<close>, and the engine's addition
  and multiplication of doubles.
\<close>

record env =
  new_id :: oid
  now :: nat
  rnd :: string
  dbl_add :: "real \<Rightarrow> real \<Rightarrow> real"
  dbl_mul :: "real \<Rightarrow> real \<Rightarrow> real"

section \<open>Collection operations\<close>

text \<open>\<open>updateOne\<close> on a filter: the first matching document is changed.\<close>

fun update_first :: "('a \<Rightarrow> bool) \<Rightarrow> ('a \<Rightarrow> 'a) \<Rightarrow> 'a list \<Rightarrow> 'a list" where
  "update_first P f [] = []"
| "update_first P f (x # xs) = (if P x then f x # xs else x # update_first P f xs)"

text \<open>\<open>Gem.find({ _id: { $in: gemIds } })\<close>: the strings are cast.\<close>

definition Gem_find_in :: "string list \<Rightarrow> gem list \<Rightarrow> gem list" where
  "Gem_find_in gemIds gs = filter (\<lambda>g. gem_id g \<in> set (map castObjectId gemIds)) gs"

text \<open>\<open>Gem.findById(gemId)\<close>: the string is cast.\<close>

definition Gem_findById :: "string \<Rightarrow> gem list \<Rightarrow> gem option" where
  "Gem_findById str gs = find (\<lambda>g. gem_id g = castObjectId str) gs"

text \<open>\<open>gems.find(g => g._id.toString() === item.gemId)\<close>: the strings are compared as
  they are.\<close>

definition gems_find :: "string \<Rightarrow> gem list \<Rightarrow> gem option" where
  "gems_find str gs = find (\<lambda>g. gem_id g = str) gs"

text \<open>\<open>Gem.findByIdAndUpdate(id, { $inc: { stock: d } })\<close>; no document, no change.\<close>

definition inc_stock :: "oid \<Rightarrow> int \<Rightarrow> gem list \<Rightarrow> gem list" where
  "inc_stock i d gs = update_first (\<lambda>g. gem_id g = i) (\<lambda>g. g\<lparr>stock := stock g + d\<rparr>) gs"

text \<open>\<open>Order.findOne({ orderId, userId })\<close>\<close>

definition Order_findOne :: "string \<Rightarrow> oid \<Rightarrow> order list \<Rightarrow> order option" where
  "Order_findOne oid u ords = find (\<lambda>p. orderId p = oid \<and> userId p = u) ords"

text \<open>\<open>OrderItem.find({ orderId: order._id })\<close>\<close>

definition OrderItem_find :: "oid \<Rightarrow> order_item list \<Rightarrow> order_item list" where
  "OrderItem_find i ois = filter (\<lambda>l. oi_orderId l = i) ois"

text \<open>\<open>CartItem.findOne({ userId, gemId })\<close>\<close>

definition CartItem_findOne :: "oid \<Rightarrow> oid \<Rightarrow> cart_item list \<Rightarrow> cart_item option" where
  "CartItem_findOne u g cs = find (\<lambda>c. ci_userId c = u \<and> ci_gemId c = g) cs"

text \<open>\<open>CartItem.deleteMany({ userId })\<close>\<close>

definition CartItem_deleteMany :: "oid \<Rightarrow> cart_item list \<Rightarrow> cart_item list" where
  "CartItem_deleteMany u cs = filter (\<lambda>c. ci_userId c \<noteq> u) cs"

section \<open>The order model\<close>

text \<open>
  The hook's identifier,
  \<open>'ORD' + Date.now() + Math.random().toString(36).substr(2, 5).toUpperCase()\<close>:
  the clock is printed in decimal.
\<close>

definition digit_char :: "nat \<Rightarrow> char" where
  "digit_char n = ''0123456789'' ! n"

function show_nat :: "nat \<Rightarrow> string" where
  "show_nat n = (if n < 10 then [digit_char n] else show_nat (n div 10) @ [digit_char (n mod 10)])"
  by pat_completeness auto
termination
  by (relation "measure id") auto

definition gen_orderId :: "env \<Rightarrow> string" where
  "gen_orderId e = ''ORD'' @ show_nat (now e) @ rnd e"

text \<open>
  The document that \<open>new Order({...})\<close> builds and \<open>order.save()\<close> stores. The handler
  gives it no \<open>orderId\<close>; the status is the schema's default.
\<close>

record order_draft =
  d_id :: oid
  d_orderId :: "string option"
  d_userId :: oid
  d_status :: order_status
  d_total :: real
  d_shippingAddress :: shipping_address
  d_paymentMethod :: payment_method
  d_orderNotes :: "string option"

text \<open>
  The schema's checks that can fail for a document the handler built from a validated
  body: \<open>orderId\<close> is \<open>required\<close>, \<open>total\<close> has \<open>min: 0\<close>.
\<close>

definition validate_order :: "order_draft \<Rightarrow> bool" where
  "validate_order d = (d_orderId d \<noteq> None \<and> 0 \<le> d_total d)"

text \<open>\<open>if (!this.orderId) { this.orderId = 'ORD' + ... }\<close>: the identifier after the hook.\<close>

definition pre_save :: "env \<Rightarrow> order_draft \<Rightarrow> string" where
  "pre_save e d =
     (case d_orderId d of
        None \<Rightarrow> gen_orderId e
      | Some i \<Rightarrow> if i = [] then gen_orderId e else i)"

definition order_key_taken :: "order \<Rightarrow> order list \<Rightarrow> bool" where
  "order_key_taken ord ords =
     (\<exists>p \<in> set ords. order_id p = order_id ord \<or> orderId p = orderId ord)"

text \<open>
  \<open>order.save()\<close> of a new document: the order it stores, or \<open>None\<close> when it throws.
  Saving validates the document first, and runs the hooks that the schema registered
  with \<open>pre('save')\<close> after that: the check of \<open>orderId\<close> sees the document as the
  handler built it. The insert throws when a unique index, on \<open>_id\<close> or on \<open>orderId\<close>,
  already holds the value.
\<close>

definition Order_save :: "env \<Rightarrow> order_draft \<Rightarrow> order list \<Rightarrow> order option" where
  "Order_save e d ords =
     (if \<not> validate_order d then None
      else
        let ord = \<lparr>order_id = d_id d, orderId = pre_save e d, userId = d_userId d,
                   status = d_status d, total = d_total d,
                   shippingAddress = d_shippingAddress d, paymentMethod = d_paymentMethod d,
                   orderNotes = d_orderNotes d, trackingNumber = None,
                   createdAt = now e, updatedAt = now e\<rparr>
        in if order_key_taken ord ords then None else Some ord)"

section \<open>POST /api/orders\<close>

definition validation_failed :: "string list \<Rightarrow> response" where
  "validation_failed es =
     \<lparr>http_status = 400, success = False, message = Some ''Validation failed'', data = Errors es\<rparr>"

definition gems_not_found :: response where
  "gems_not_found =
     \<lparr>http_status = 400, success = False, message = Some ''One or more gems not found'', data = NoData\<rparr>"

definition insufficient_stock :: "gem \<Rightarrow> response" where
  "insufficient_stock g =
     \<lparr>http_status = 400, success = False, message = Some (''Insufficient stock for '' @ name g),
      data = NoData\<rparr>"

definition order_server_error :: response where
  "order_server_error =
     \<lparr>http_status = 500, success = False, message = Some ''Server error during order creation'',
      data = NoData\<rparr>"

definition order_created :: "order \<Rightarrow> response" where
  "order_created ord =
     \<lparr>http_status = 201, success = True, message = Some ''Order created successfully'',
      data = OrderCreated (orderId ord) (status ord) (total ord) (createdAt ord)\<rparr>"

text \<open>
  The stock loop. It returns the response of its early return, or \<open>None\<close> when it runs to
  the end. The line's gem is looked up by the string of the request; reading a field of
  \<open>undefined\<close> throws, and the handler's \<open>catch\<close> answers 500.
\<close>

fun check_stock :: "gem list \<Rightarrow> item list \<Rightarrow> response option" where
  "check_stock gs [] = None"
| "check_stock gs (it # its) =
     (case gems_find (gemId it) gs of
        None \<Rightarrow> Some order_server_error
      | Some g \<Rightarrow>
          if \<not> availability g \<or> stock g < quantity it then Some (insufficient_stock g)
          else check_stock gs its)"

text \<open>\<open>items.reduce((sum, item) => sum + (item.price * item.quantity), 0)\<close>\<close>

definition calc_total :: "env \<Rightarrow> item list \<Rightarrow> real" where
  "calc_total e its =
     foldl (\<lambda>sum it. dbl_add e sum (dbl_mul e (price it) (real_of_int (quantity it)))) 0 its"

text \<open>\<open>new Order({ userId, total, shippingAddress, paymentMethod, orderNotes })\<close>\<close>

definition new_Order :: "env \<Rightarrow> oid \<Rightarrow> order_req \<Rightarrow> order_draft" where
  "new_Order e u req =
     \<lparr>d_id = new_id e, d_orderId = None, d_userId = u, d_status = pending,
      d_total = calc_total e (items req), d_shippingAddress = req_shippingAddress req,
      d_paymentMethod = req_paymentMethod req, d_orderNotes = req_orderNotes req\<rparr>"

text \<open>The order items; their schema casts \<open>gemId\<close> to an ObjectId.\<close>

definition new_order_items :: "order \<Rightarrow> item list \<Rightarrow> order_item list" where
  "new_order_items ord its =
     map (\<lambda>it. \<lparr>oi_orderId = order_id ord, oi_gemId = castObjectId (gemId it),
                oi_quantity = quantity it, oi_price = price it\<rparr>) its"

definition decrement_stock :: "item list \<Rightarrow> gem list \<Rightarrow> gem list" where
  "decrement_stock its gs =
     foldl (\<lambda>gs it. inc_stock (castObjectId (gemId it)) (- quantity it) gs) gs its"

definition place_order :: "env \<Rightarrow> oid \<Rightarrow> order_req \<Rightarrow> db \<Rightarrow> response \<times> db" where
  "place_order e u req s =
     (if errors req \<noteq> [] then (validation_failed (errors req), s)
      else
        let gemIds = map gemId (items req);
            found = Gem_find_in gemIds (gems s)
        in if length found \<noteq> length (items req) then (gems_not_found, s)
           else
             case check_stock found (items req) of
               Some r \<Rightarrow> (r, s)
             | None \<Rightarrow>
                 (case Order_save e (new_Order e u req) (orders s) of
                    None \<Rightarrow> (order_server_error, s)
                  | Some ord \<Rightarrow>
                      let s1 = s\<lparr>orders := orders s @ [ord]\<rparr>;
                          s2 = s1\<lparr>orderItems := orderItems s1 @ new_order_items ord (items req)\<rparr>;
                          s3 = s2\<lparr>gems := decrement_stock (items req) (gems s2)\<rparr>;
                          s4 = s3\<lparr>cartItems := CartItem_deleteMany u (cartItems s3)\<rparr>
                      in (order_created ord, s4)))"

section \<open>GET /api/orders/:orderId\<close>

definition order_not_found :: response where
  "order_not_found =
     \<lparr>http_status = 404, success = False, message = Some ''Order not found'', data = NoData\<rparr>"

text \<open>\<open>populate('gemId', ...)\<close> puts the gem, or null, in the place of its id.\<close>

definition populate_gem :: "gem list \<Rightarrow> order_item \<Rightarrow> order_item \<times> gem option" where
  "populate_gem gs l = (l, find (\<lambda>g. gem_id g = oi_gemId l) gs)"

definition get_order :: "oid \<Rightarrow> string \<Rightarrow> db \<Rightarrow> response" where
  "get_order u oid s =
     (case Order_findOne oid u (orders s) of
        None \<Rightarrow> order_not_found
      | Some ord \<Rightarrow>
          \<lparr>http_status = 200, success = True, message = None,
           data = OrderDetails ord
                    (map (populate_gem (gems s)) (OrderItem_find (order_id ord) (orderItems s)))\<rparr>)"

section \<open>PUT /api/orders/:orderId/cancel\<close>

definition already_cancelled :: response where
  "already_cancelled =
     \<lparr>http_status = 400, success = False, message = Some ''Order is already cancelled'',
      data = NoData\<rparr>"

definition cannot_cancel :: response where
  "cannot_cancel =
     \<lparr>http_status = 400, success = False,
      message = Some ''Cannot cancel order that has been shipped or delivered'', data = NoData\<rparr>"

definition order_cancelled :: response where
  "order_cancelled =
     \<lparr>http_status = 200, success = True, message = Some ''Order cancelled successfully'',
      data = NoData\<rparr>"

text \<open>\<open>order.status = 'cancelled'; await order.save()\<close> writes the changed paths of the
  document with the order's \<open>_id\<close>.\<close>

definition save_cancelled :: "nat \<Rightarrow> order \<Rightarrow> order list \<Rightarrow> order list" where
  "save_cancelled t ord ords =
     update_first (\<lambda>p. order_id p = order_id ord)
       (\<lambda>p. p\<lparr>status := cancelled, updatedAt := t\<rparr>) ords"

definition restore_stock :: "order_item list \<Rightarrow> gem list \<Rightarrow> gem list" where
  "restore_stock ls gs = foldl (\<lambda>gs l. inc_stock (oi_gemId l) (oi_quantity l) gs) gs ls"

definition cancel_order :: "nat \<Rightarrow> oid \<Rightarrow> string \<Rightarrow> db \<Rightarrow> response \<times> db" where
  "cancel_order t u oid s =
     (case Order_findOne oid u (orders s) of
        None \<Rightarrow> (order_not_found, s)
      | Some ord \<Rightarrow>
          if status ord = cancelled then (already_cancelled, s)
          else if status ord \<in> set [shipped, delivered] then (cannot_cancel, s)
          else
            let s1 = s\<lparr>orders := save_cancelled t ord (orders s)\<rparr>;
                ls = OrderItem_find (order_id ord) (orderItems s1);
                s2 = s1\<lparr>gems := restore_stock ls (gems s1)\<rparr>
            in (order_cancelled, s2))"

section \<open>POST /api/cart/add\<close>

definition gem_not_found :: response where
  "gem_not_found =
     \<lparr>http_status = 404, success = False, message = Some ''Gem not found'', data = NoData\<rparr>"

definition gem_unavailable :: response where
  "gem_unavailable =
     \<lparr>http_status = 400, success = False,
      message = Some ''Gem is not available or insufficient stock'', data = NoData\<rparr>"

definition item_added :: "cart_item \<Rightarrow> response" where
  "item_added c =
     \<lparr>http_status = 201, success = True, message = Some ''Item added to cart'',
      data = CartItemData (ci_id c) (ci_gemId c) (ci_quantity c) (ci_createdAt c)\<rparr>"

definition cart_server_error :: response where
  "cart_server_error =
     \<lparr>http_status = 500, success = False,
      message = Some ''Server error during adding to cart'', data = NoData\<rparr>"

text \<open>
  The number a string stands for, for the strings met here: those that passed \<open>isInt\<close>
  (a sign or none, then digits) and a printed number followed by one of them. A string
  that is no number stands for \<open>NaN\<close>, here \<open>None\<close>.
\<close>

definition digit_of :: "char \<Rightarrow> nat option" where
  "digit_of c = map_of (zip ''0123456789'' [0, 1, 2, 3, 4, 5, 6, 7, 8, 9]) c"

fun parse_digits :: "nat \<Rightarrow> string \<Rightarrow> nat option" where
  "parse_digits acc [] = Some acc"
| "parse_digits acc (c # cs) =
     (case digit_of c of None \<Rightarrow> None | Some d \<Rightarrow> parse_digits (10 * acc + d) cs)"

definition parse_int :: "string \<Rightarrow> int option" where
  "parse_int str =
     (case str of
        [] \<Rightarrow> None
      | c # cs \<Rightarrow>
          if c = CHR ''-'' then
            (if cs = [] then None else map_option (\<lambda>n. - int n) (parse_digits 0 cs))
          else if c = CHR ''+'' then
            (if cs = [] then None else map_option int (parse_digits 0 cs))
          else map_option int (parse_digits 0 str))"

text \<open>\<open>String(n)\<close> of an integer, below the 21 digits from which JavaScript prints an
  exponent.\<close>

definition show_int :: "int \<Rightarrow> string" where
  "show_int n = (if n < 0 then ''-'' @ show_nat (nat (- n)) else show_nat (nat n))"

text \<open>
  The double nearest to an integer: 53 significant bits, a tie going to the even
  neighbour. Magnitudes from \<open>2 ^ 1024\<close> on, which no double holds, are not met here.
\<close>

definition round53 :: "int \<Rightarrow> int" where
  "round53 x =
     (if \<bar>x\<bar> < 2 ^ 53 then x
      else
        let sh = nat (bitlen \<bar>x\<bar> - 53);
            q = \<bar>x\<bar> div 2 ^ sh;
            r = \<bar>x\<bar> mod 2 ^ sh;
            q' = (if 2 ^ sh < 2 * r \<or> (2 * r = 2 ^ sh \<and> odd q) then q + 1 else q)
        in sgn x * q' * 2 ^ sh)"

text \<open>\<open>ToNumber\<close> of a request value.\<close>

definition to_number :: "jsval \<Rightarrow> int option" where
  "to_number v = (case v of JNum n \<Rightarrow> Some n | JStr str \<Rightarrow> map_option round53 (parse_int str))"

text \<open>\<open>gem.stock < quantity\<close>: a comparison with \<open>NaN\<close> is false.\<close>

definition js_less :: "int \<Rightarrow> jsval \<Rightarrow> bool" where
  "js_less a v = (case to_number v of None \<Rightarrow> False | Some n \<Rightarrow> a < n)"

text \<open>\<open>cartItem.quantity + quantity\<close>: two numbers are added, a number and a string are
  joined as strings.\<close>

definition js_plus :: "int \<Rightarrow> jsval \<Rightarrow> jsval" where
  "js_plus a v = (case v of JNum n \<Rightarrow> JNum (round53 (a + n)) | JStr str \<Rightarrow> JStr (show_int a @ str))"

text \<open>
  A value assigned to the Number path \<open>quantity\<close> of a cart item: the schema casts
  it, and a value that is no number makes \<open>save()\<close> throw (\<open>None\<close>).
\<close>

definition castNumber :: "jsval \<Rightarrow> int option" where
  "castNumber v = to_number v"

definition add_to_cart :: "env \<Rightarrow> oid \<Rightarrow> cart_req \<Rightarrow> db \<Rightarrow> response \<times> db" where
  "add_to_cart e u req s =
     (if cr_errors req \<noteq> [] then (validation_failed (cr_errors req), s)
      else
        case Gem_findById (cr_gemId req) (gems s) of
          None \<Rightarrow> (gem_not_found, s)
        | Some g \<Rightarrow>
            if \<not> availability g \<or> js_less (stock g) (cr_quantity req) then (gem_unavailable, s)
            else
              (case CartItem_findOne u (castObjectId (cr_gemId req)) (cartItems s) of
                 Some c \<Rightarrow>
                   (case castNumber (js_plus (ci_quantity c) (cr_quantity req)) of
                      None \<Rightarrow> (cart_server_error, s)
                    | Some n \<Rightarrow>
                        (item_added (c\<lparr>ci_quantity := n\<rparr>),
                         s\<lparr>cartItems :=
                             update_first (\<lambda>x. ci_id x = ci_id c)
                               (\<lambda>x. x\<lparr>ci_quantity := n\<rparr>) (cartItems s)\<rparr>))
               | None \<Rightarrow>
                   (case castNumber (cr_quantity req) of
                      None \<Rightarrow> (cart_server_error, s)
                    | Some n \<Rightarrow>
                        (let c' = \<lparr>ci_id = new_id e, ci_userId = u,
                                  ci_gemId = castObjectId (cr_gemId req),
                                  ci_quantity = n, ci_createdAt = now e\<rparr>
                         in (item_added c', s\<lparr>cartItems := cartItems s @ [c']\<rparr>)))))"

section \<open>POST /api/auth/login\<close>

text \<open>
  The user model and the token middleware are not part of the sources read here, so
  \<open>user.comparePassword\<close> and \<open>generateToken\<close> are parameters of the handler.
\<close>

definition invalid_credentials :: response where
  "invalid_credentials =
     \<lparr>http_status = 401, success = False, message = Some ''Invalid credentials'', data = NoData\<rparr>"

definition User_findOne :: "string \<Rightarrow> user list \<Rightarrow> user option" where
  "User_findOne em us = find (\<lambda>x. u_email x = em) us"

definition login ::
  "(user \<Rightarrow> string \<Rightarrow> bool) \<Rightarrow> (oid \<Rightarrow> string) \<Rightarrow> login_req \<Rightarrow> db \<Rightarrow> response" where
  "login comparePassword generateToken req s =
     (if l_errors req \<noteq> [] then validation_failed (l_errors req)
      else
        case User_findOne (l_email req) (users s) of
          None \<Rightarrow> invalid_credentials
        | Some usr \<Rightarrow>
            if \<not> comparePassword usr (l_password req) then invalid_credentials
            else
              \<lparr>http_status = 200, success = True, message = Some ''Login successful'',
               data = LoginData (generateToken (user_id usr)) (user_id usr) (u_name usr)
                        (u_email usr) (u_phone usr)\<rparr>)"


section \<open>Notions used in the statements\<close>

text \<open>
  A line falls short when the gem it names is switched off or has less stock than the
  line asks for.
\<close>

definition line_short :: "gem list \<Rightarrow> item \<Rightarrow> bool" where
  "line_short gs it =
     (case Gem_findById (gemId it) gs of
        None \<Rightarrow> False
      | Some g \<Rightarrow> \<not> availability g \<or> stock g < quantity it)"

text \<open>The units that the lines of a request order under the id string \<open>i\<close>.\<close>

definition ordered_qty :: "string \<Rightarrow> item list \<Rightarrow> int" where
  "ordered_qty i its = sum_list (map quantity (filter (\<lambda>it. gemId it = i) its))"

text \<open>The units of gem \<open>i\<close> on a list of order lines.\<close>

definition line_qty :: "oid \<Rightarrow> order_item list \<Rightarrow> int" where
  "line_qty i ls = sum_list (map oi_quantity (filter (\<lambda>l. oi_gemId l = i) ls))"

text \<open>At most one cart item for a user and a gem.\<close>

definition cart_unique :: "cart_item list \<Rightarrow> bool" where
  "cart_unique cs = distinct (map (\<lambda>c. (ci_userId c, ci_gemId c)) cs)"

section \<open>A small shop\<close>

text \<open>The concrete documents that the examples below run on.\<close>

definition ruby :: gem where
  "ruby = \<lparr>gem_id = ''64b000000000000000000001'', name = ''Ruby'', gem_price = 100,
           stock = 5, availability = True\<rparr>"

definition opal :: gem where
  "opal = \<lparr>gem_id = ''64b000000000000000000002'', name = ''Opal'', gem_price = 40,
           stock = 0, availability = True\<rparr>"

definition asha :: oid where
  "asha = ''64a000000000000000000001''"

definition ravi :: oid where
  "ravi = ''64a000000000000000000002''"

definition home :: shipping_address where
  "home = \<lparr>firstName = ''Asha'', lastName = ''Rao'', addr_email = ''asha@example.com'',
           addr_phone = ''5550100'', address = ''1 Lake Road'', city = ''Pune'',
           state = ''MH'', pincode = ''411001''\<rparr>"

definition asha_cart :: cart_item where
  "asha_cart = \<lparr>ci_id = ''64c000000000000000000001'', ci_userId = asha,
                ci_gemId = ''64b000000000000000000001'', ci_quantity = 2, ci_createdAt = 3\<rparr>"

definition asha_user :: user where
  "asha_user = \<lparr>user_id = asha, u_name = ''Asha'', u_email = ''asha@example.com'',
                u_phone = None, u_password = ''$2a$10$hash''\<rparr>"

definition shop :: db where
  "shop = \<lparr>gems = [ruby, opal], orders = [], orderItems = [], cartItems = [asha_cart],
           users = [asha_user]\<rparr>"

text \<open>On the small whole numbers of the examples the doubles add and multiply exactly.\<close>

definition env0 :: env where
  "env0 = \<lparr>new_id = ''64d000000000000000000001'', now = 7, rnd = ''K3F9Q'',
            dbl_add = (+), dbl_mul = (*)\<rparr>"

text \<open>Three rubies at 100 each.\<close>

definition three_rubies :: order_req where
  "three_rubies =
     \<lparr>errors = [],
      items = [\<lparr>gemId = ''64b000000000000000000001'', quantity = 3, price = 100\<rparr>],
      req_shippingAddress = home, req_paymentMethod = pay_cod, req_orderNotes = None\<rparr>"

text \<open>One opal, of which there is none, and a gem that is not in the catalogue.\<close>

definition opal_and_unknown :: order_req where
  "opal_and_unknown =
     \<lparr>errors = [],
      items = [\<lparr>gemId = ''64b000000000000000000002'', quantity = 1, price = 40\<rparr>,
               \<lparr>gemId = ''64b0000000000000000000ff'', quantity = 1, price = 10\<rparr>],
      req_shippingAddress = home, req_paymentMethod = pay_cod, req_orderNotes = None\<rparr>"

text \<open>One opal, of which there is none.\<close>

definition one_opal :: order_req where
  "one_opal =
     \<lparr>errors = [],
      items = [\<lparr>gemId = ''64b000000000000000000002'', quantity = 1, price = 40\<rparr>],
      req_shippingAddress = home, req_paymentMethod = pay_cod, req_orderNotes = None\<rparr>"

text \<open>A gem that is not in the catalogue.\<close>

definition unknown_gem :: order_req where
  "unknown_gem =
     \<lparr>errors = [],
      items = [\<lparr>gemId = ''64b0000000000000000000ff'', quantity = 1, price = 10\<rparr>],
      req_shippingAddress = home, req_paymentMethod = pay_cod, req_orderNotes = None\<rparr>"

text \<open>The ruby on two lines, two and one: three of the five in stock.\<close>

definition ruby_twice :: order_req where
  "ruby_twice =
     \<lparr>errors = [],
      items = [\<lparr>gemId = ''64b000000000000000000001'', quantity = 2, price = 100\<rparr>,
               \<lparr>gemId = ''64b000000000000000000001'', quantity = 1, price = 100\<rparr>],
      req_shippingAddress = home, req_paymentMethod = pay_cod, req_orderNotes = None\<rparr>"

text \<open>An order of Asha's for three rubies, in a given status, with its line.\<close>

definition asha_order :: "order_status \<Rightarrow> order" where
  "asha_order st =
     \<lparr>order_id = ''64d000000000000000000009'', orderId = ''ORD5ZX81P'', userId = asha,
      status = st, total = 300, shippingAddress = home, paymentMethod = pay_cod,
      orderNotes = None, trackingNumber = None, createdAt = 5, updatedAt = 5\<rparr>"

definition asha_line :: order_item where
  "asha_line = \<lparr>oi_orderId = ''64d000000000000000000009'',
                oi_gemId = ''64b000000000000000000001'', oi_quantity = 3, oi_price = 100\<rparr>"

definition shop_with :: "order_status \<Rightarrow> db" where
  "shop_with st = shop\<lparr>orders := [asha_order st], orderItems := [asha_line]\<rparr>"

text \<open>One opal, named in upper-case hex digits.\<close>

definition one_opal_upper :: order_req where
  "one_opal_upper =
     \<lparr>errors = [],
      items = [\<lparr>gemId = ''64B000000000000000000002'', quantity = 1, price = 40\<rparr>],
      req_shippingAddress = home, req_paymentMethod = pay_cod, req_orderNotes = None\<rparr>"

text \<open>A second order, Ravi's, with a line of two rubies.\<close>

definition ravi_line :: order_item where
  "ravi_line = \<lparr>oi_orderId = ''64d000000000000000000008'',
                oi_gemId = ''64b000000000000000000001'', oi_quantity = 2, oi_price = 100\<rparr>"

text \<open>
  Requests to the cart: six rubies, one more than the stock; one ruby; and one ruby with
  the quantity sent as the string \<open>"1"\<close>.
\<close>

definition add_six_rubies :: cart_req where
  "add_six_rubies =
     \<lparr>cr_errors = [], cr_gemId = ''64b000000000000000000001'', cr_quantity = JNum 6\<rparr>"

definition add_one_ruby :: cart_req where
  "add_one_ruby =
     \<lparr>cr_errors = [], cr_gemId = ''64b000000000000000000001'', cr_quantity = JNum 1\<rparr>"

definition add_one_ruby_text :: cart_req where
  "add_one_ruby_text =
     \<lparr>cr_errors = [], cr_gemId = ''64b000000000000000000001'', cr_quantity = JStr ''1''\<rparr>"

text \<open>Two logins: an address nobody has, and Asha's address with a wrong password.\<close>

definition login_nobody :: login_req where
  "login_nobody = \<lparr>l_errors = [], l_email = ''nobody@example.com'', l_password = ''secret1''\<rparr>"

definition login_wrong :: login_req where
  "login_wrong = \<lparr>l_errors = [], l_email = ''asha@example.com'', l_password = ''secret1''\<rparr>"

text \<open>A stand-in for the password comparison: the stored hash is the password itself.\<close>

definition plain_compare :: "user \<Rightarrow> string \<Rightarrow> bool" where
  "plain_compare usr pw = (u_password usr = pw)"

definition plain_token :: "oid \<Rightarrow> string" where
  "plain_token i = ''token-'' @ i"

section \<open>Evaluation sets\<close>

lemmas coll_defs =
  Gem_find_in_def Gem_findById_def gems_find_def inc_stock_def Order_findOne_def
  OrderItem_find_def CartItem_findOne_def CartItem_deleteMany_def User_findOne_def
  castObjectId_def lower_hex_def

lemmas shop_defs =
  ruby_def opal_def asha_def ravi_def home_def asha_cart_def asha_user_def shop_def env0_def
  three_rubies_def opal_and_unknown_def one_opal_def unknown_gem_def ruby_twice_def
  one_opal_upper_def ravi_line_def
  asha_order_def asha_line_def shop_with_def add_six_rubies_def add_one_ruby_def
  add_one_ruby_text_def
  login_nobody_def login_wrong_def plain_compare_def plain_token_def

section \<open>The count check and the stock loop\<close>

text \<open>
  With unique gem ids the query finds as many gems as there are distinct ObjectIds among
  the cast strings that resolve, so its count equals the number of lines exactly when no
  ObjectId repeats and every one resolves.
\<close>

lemma length_filter_ids:
  assumes "distinct (map gem_id gs)"
  shows "length (filter (\<lambda>g. gem_id g \<in> set ids) gs) = card (set ids \<inter> gem_id ` set gs)"
proof -
  have "length (filter (\<lambda>g. gem_id g \<in> set ids) gs)
        = length (map gem_id (filter (\<lambda>g. gem_id g \<in> set ids) gs))"
    by simp
  also have "map gem_id (filter (\<lambda>g. gem_id g \<in> set ids) gs)
             = filter (\<lambda>i. i \<in> set ids) (map gem_id gs)"
    by (simp add: filter_map comp_def)
  also have "length \<dots> = card (set (filter (\<lambda>i. i \<in> set ids) (map gem_id gs)))"
  proof -
    have "distinct (filter (\<lambda>i. i \<in> set ids) (map gem_id gs))"
      using assms by (rule distinct_filter)
    then show ?thesis by (rule distinct_card [symmetric])
  qed
  also have "set (filter (\<lambda>i. i \<in> set ids) (map gem_id gs)) = set ids \<inter> gem_id ` set gs"
    by auto
  finally show ?thesis .
qed

lemma filter_ids_count_iff:
  assumes "distinct (map gem_id gs)"
  shows "length (filter (\<lambda>g. gem_id g \<in> set ids) gs) = length ids
         \<longleftrightarrow> distinct ids \<and> set ids \<subseteq> gem_id ` set gs"
proof
  assume eq: "length (filter (\<lambda>g. gem_id g \<in> set ids) gs) = length ids"
  have le1: "card (set ids \<inter> gem_id ` set gs) \<le> card (set ids)"
    by (simp add: card_mono)
  have le2: "card (set ids) \<le> length ids" by (rule card_length)
  from eq have c: "card (set ids \<inter> gem_id ` set gs) = length ids"
    by (simp add: length_filter_ids [OF assms])
  with le1 le2 have d: "card (set ids) = length ids"
    and e: "card (set ids \<inter> gem_id ` set gs) = card (set ids)"
    by linarith+
  from d have "distinct ids" by (simp add: card_distinct)
  moreover from e have "set ids \<inter> gem_id ` set gs = set ids"
    by (intro card_subset_eq) auto
  ultimately show "distinct ids \<and> set ids \<subseteq> gem_id ` set gs" by blast
next
  assume "distinct ids \<and> set ids \<subseteq> gem_id ` set gs"
  then have "distinct ids" and "set ids \<inter> gem_id ` set gs = set ids" by auto
  then show "length (filter (\<lambda>g. gem_id g \<in> set ids) gs) = length ids"
    by (simp add: length_filter_ids [OF assms] distinct_card)
qed

lemma find_in_count_iff:
  assumes "distinct (map gem_id gs)"
  shows "length (Gem_find_in strs gs) = length strs
         \<longleftrightarrow> distinct (map castObjectId strs) \<and> castObjectId ` set strs \<subseteq> gem_id ` set gs"
  using filter_ids_count_iff [OF assms, of "map castObjectId strs"]
  by (simp add: Gem_find_in_def)


text \<open>
  The loop looks a line's gem up by the string of the request. For a string in lower
  case this is the gem that the query found for it.
\<close>

lemma gems_find_find_in:
  "str \<in> castObjectId ` set strs \<Longrightarrow> gems_find str (Gem_find_in strs gs) = gems_find str gs"
  unfolding gems_find_def Gem_find_in_def
  by (induction gs) auto

lemma gems_find_Some_iff:
  "(\<exists>g. gems_find str gs = Some g) \<longleftrightarrow> str \<in> gem_id ` set gs"
  unfolding gems_find_def by (induction gs) auto

lemma gems_find_SomeD:
  "gems_find str gs = Some g \<Longrightarrow> g \<in> set gs \<and> gem_id g = str"
  unfolding gems_find_def by (induction gs) (auto split: if_splits)

lemma findById_lower:
  "castObjectId str = str \<Longrightarrow> Gem_findById str gs = gems_find str gs"
  by (simp add: Gem_findById_def gems_find_def)


text \<open>The loop stops at the first line that falls short and names that line's gem.\<close>

lemma check_stock_short:
  assumes "gemId ` set its \<subseteq> gem_id ` set gs"
    and "\<forall>it \<in> set its. castObjectId (gemId it) = gemId it"
    and "\<exists>it \<in> set its. line_short gs it"
  shows "\<exists>it \<in> set its. \<exists>g. gems_find (gemId it) gs = Some g \<and>
           (\<not> availability g \<or> stock g < quantity it) \<and>
           check_stock gs its = Some (insufficient_stock g)"
  using assms
proof (induction its)
  case Nil
  then show ?case by simp
next
  case (Cons it its)
  from Cons.prems(1) obtain g where g: "gems_find (gemId it) gs = Some g"
    using gems_find_Some_iff [of "gemId it" gs] by auto
  show ?case
  proof (cases "\<not> availability g \<or> stock g < quantity it")
    case True
    with g show ?thesis by auto
  next
    case False
    from Cons.prems(2) have "Gem_findById (gemId it) gs = gems_find (gemId it) gs"
      by (simp add: findById_lower)
    with g False Cons.prems(3) have "\<exists>it \<in> set its. line_short gs it"
      by (auto simp: line_short_def)
    with Cons.IH Cons.prems(1,2) obtain it' g' where "it' \<in> set its"
      "gems_find (gemId it') gs = Some g'"
      "\<not> availability g' \<or> stock g' < quantity it'"
      "check_stock gs its = Some (insufficient_stock g')"
      by auto
    with g False show ?thesis by auto
  qed
qed

lemma check_stock_cong:
  "(\<And>it. it \<in> set its \<Longrightarrow> gems_find (gemId it) gs = gems_find (gemId it) gs')
   \<Longrightarrow> check_stock gs its = check_stock gs' its"
  by (induction its) (auto split: option.splits)

lemma check_stock_find_in:
  assumes "\<forall>it \<in> set its. castObjectId (gemId it) = gemId it"
  shows "check_stock (Gem_find_in (map gemId its) gs) its = check_stock gs its"
proof (rule check_stock_cong)
  fix it assume "it \<in> set its"
  with assms have "gemId it \<in> castObjectId ` set (map gemId its)"
    by (metis image_eqI image_set)
  then show "gems_find (gemId it) (Gem_find_in (map gemId its) gs) = gems_find (gemId it) gs"
    by (rule gems_find_find_in)
qed

lemma check_stock_ok:
  "\<forall>it \<in> set its. \<exists>g. gems_find (gemId it) gs = Some g \<and> availability g \<and> quantity it \<le> stock g
   \<Longrightarrow> check_stock gs its = None"
  by (induction its) auto



section \<open>Placing an order\<close>

text \<open>
  Saving the order that the handler builds throws: the document has no \<open>orderId\<close> when
  it is validated. So a placement writes nothing and never succeeds.
\<close>

lemma Order_save_new: "Order_save e (new_Order e u req) ords = None"
  by (simp add: Order_save_def validate_order_def new_Order_def)

lemma place_order_count_fails:
  assumes "errors req = []"
    and "length (Gem_find_in (map gemId (items req)) (gems s)) \<noteq> length (items req)"
  shows "place_order e u req s = (gems_not_found, s)"
  using assms by (simp add: place_order_def)

lemma place_order_past_count:
  assumes "errors req = []"
    and "distinct (map gem_id (gems s))"
    and "distinct (map gemId (items req))"
    and "\<forall>it \<in> set (items req). castObjectId (gemId it) = gemId it"
    and "gemId ` set (items req) \<subseteq> gem_id ` set (gems s)"
  shows "place_order e u req s =
     (case check_stock (gems s) (items req) of
        Some r \<Rightarrow> (r, s)
      | None \<Rightarrow> (order_server_error, s))"
proof -
  have m: "map castObjectId (map gemId (items req)) = map gemId (items req)"
    using assms(4) by (induction "items req") auto
  have d: "distinct (map castObjectId (map gemId (items req)))"
    using assms(3) by (simp only: m)
  have "castObjectId ` set (map gemId (items req))
        = set (map castObjectId (map gemId (items req)))"
    by (simp only: set_map)
  also have "\<dots> = gemId ` set (items req)"
    by (simp only: m set_map)
  finally have sub: "castObjectId ` set (map gemId (items req)) \<subseteq> gem_id ` set (gems s)"
    using assms(5) by simp
  have "length (Gem_find_in (map gemId (items req)) (gems s)) = length (map gemId (items req))"
    using find_in_count_iff [OF assms(2), of "map gemId (items req)"] d sub by blast
  moreover have "check_stock (Gem_find_in (map gemId (items req)) (gems s)) (items req)
      = check_stock (gems s) (items req)"
    using assms(4) by (rule check_stock_find_in)
  ultimately show ?thesis
    using assms(1) by (simp add: place_order_def Let_def Order_save_new split: option.splits)
qed

lemma place_order_state: "snd (place_order e u req s) = s"
  by (simp add: place_order_def Let_def Order_save_new split: option.splits)



text \<open>
  C1, as stated: every placement with a line whose gem is switched off or short of stock
  is answered with the insufficient-stock failure. The count check comes first in the
  handler: a request with one opal (none in stock) and a gem that is not in the catalogue
  is answered with the not-found failure instead.
\<close>

theorem place_order_short_and_unknown_counterexample:
  "line_short (gems shop) (hd (items opal_and_unknown)) \<and>
   place_order env0 asha opal_and_unknown shop =
     (\<lparr>http_status = 400, success = False, message = Some ''One or more gems not found'',
       data = NoData\<rparr>, shop)"
  by (simp add: place_order_def coll_defs shop_defs line_short_def gems_not_found_def)


text \<open>
  C1, amended: a placement with a line whose gem is switched off or has less stock than
  the line asks for leaves the gems, orders, order items and carts as they were. When
  its request passes validation, the gem ids are unique in the catalogue, and the lines
  name their gems in lower-case hex digits, with no id twice and every id in the
  catalogue, the placement fails with status 400 and the message naming the gem of a
  line that falls short.
\<close>

theorem place_order_insufficient_stock:
  assumes "\<exists>it \<in> set (items req). line_short (gems s) it"
  shows "snd (place_order e u req s) = s \<and>
         (errors req = [] \<and> distinct (map gem_id (gems s)) \<and>
          distinct (map gemId (items req)) \<and>
          (\<forall>it \<in> set (items req).
             castObjectId (gemId it) = gemId it \<and> gemId it \<in> gem_id ` set (gems s))
          \<longrightarrow> (\<exists>it \<in> set (items req). \<exists>g \<in> set (gems s).
                 gem_id g = gemId it \<and> (\<not> availability g \<or> stock g < quantity it) \<and>
                 place_order e u req s =
                   (\<lparr>http_status = 400, success = False,
                     message = Some (''Insufficient stock for '' @ name g), data = NoData\<rparr>, s)))"
proof (intro conjI impI)
  show "snd (place_order e u req s) = s"
    by (rule place_order_state)
next
  assume h: "errors req = [] \<and> distinct (map gem_id (gems s)) \<and>
          distinct (map gemId (items req)) \<and>
          (\<forall>it \<in> set (items req).
             castObjectId (gemId it) = gemId it \<and> gemId it \<in> gem_id ` set (gems s))"
  then have v: "errors req = []" and ids: "distinct (map gem_id (gems s))"
    and d: "distinct (map gemId (items req))"
    and low: "\<forall>it \<in> set (items req). castObjectId (gemId it) = gemId it"
    and sub: "gemId ` set (items req) \<subseteq> gem_id ` set (gems s)"
    by auto
  from check_stock_short [OF sub low assms]
  obtain it g where it: "it \<in> set (items req)"
    and g: "gems_find (gemId it) (gems s) = Some g"
    and short: "\<not> availability g \<or> stock g < quantity it"
    and chk: "check_stock (gems s) (items req) = Some (insufficient_stock g)"
    by blast
  from g have "g \<in> set (gems s)" "gem_id g = gemId it"
    by (simp_all add: gems_find_SomeD)
  moreover have "place_order e u req s = (insufficient_stock g, s)"
    using place_order_past_count [OF v ids d low sub] chk by simp
  ultimately show "\<exists>it \<in> set (items req). \<exists>g \<in> set (gems s).
                 gem_id g = gemId it \<and> (\<not> availability g \<or> stock g < quantity it) \<and>
                 place_order e u req s =
                   (\<lparr>http_status = 400, success = False,
                     message = Some (''Insufficient stock for '' @ name g), data = NoData\<rparr>, s)"
    using it short unfolding insufficient_stock_def by blast
qed

theorem place_order_insufficient_stock_witness:
  "place_order env0 asha one_opal shop =
     (\<lparr>http_status = 400, success = False, message = Some ''Insufficient stock for Opal'',
       data = NoData\<rparr>, shop)"
proof -
  have short: "\<exists>it \<in> set (items one_opal). line_short (gems shop) it"
    by (simp add: shop_defs line_short_def coll_defs)
  have rest: "errors one_opal = [] \<and> distinct (map gem_id (gems shop)) \<and>
          distinct (map gemId (items one_opal)) \<and>
          (\<forall>it \<in> set (items one_opal).
             castObjectId (gemId it) = gemId it \<and> gemId it \<in> gem_id ` set (gems shop))"
    by (simp add: shop_defs coll_defs)
  from place_order_insufficient_stock [OF short, of env0 asha] rest
  have "\<exists>it \<in> set (items one_opal). \<exists>g \<in> set (gems shop).
           gem_id g = gemId it \<and> (\<not> availability g \<or> stock g < quantity it) \<and>
           place_order env0 asha one_opal shop =
             (\<lparr>http_status = 400, success = False,
               message = Some (''Insufficient stock for '' @ name g), data = NoData\<rparr>, shop)"
    by blast
  then show ?thesis
    by (simp add: shop_defs)
qed


text \<open>
  An id written in upper-case hex digits: the query finds the gem, the loop's comparison
  of strings misses it, and reading \<open>gem.availability\<close> throws.
\<close>

lemma place_order_upper_case_example:
  "line_short (gems shop) (hd (items one_opal_upper)) \<and>
   place_order env0 asha one_opal_upper shop =
     (\<lparr>http_status = 500, success = False,
       message = Some ''Server error during order creation'', data = NoData\<rparr>, shop)"
  by (simp add: place_order_def coll_defs shop_defs line_short_def order_server_error_def)


text \<open>
  C2, as stated: a placement with a gem id that does not resolve fails with status 404.
  The handler answers 400.
\<close>

theorem place_order_unknown_gem_counterexample:
  "castObjectId (gemId (hd (items unknown_gem))) \<notin> gem_id ` set (gems shop) \<and>
   http_status (fst (place_order env0 asha unknown_gem shop)) = 400 \<and>
   http_status (fst (place_order env0 asha unknown_gem shop)) \<noteq> 404"
  by (simp add: place_order_def coll_defs shop_defs gems_not_found_def)


text \<open>
  C2, amended: when the request passes validation and the ObjectId of a line's gem id is
  not in the catalogue, the placement fails with status 400 and the message that one or
  more gems were not found, and nothing is written.
\<close>

theorem place_order_unknown_gem:
  assumes "errors req = []"
    and "distinct (map gem_id (gems s))"
    and "\<exists>it \<in> set (items req). castObjectId (gemId it) \<notin> gem_id ` set (gems s)"
  shows "place_order e u req s =
     (\<lparr>http_status = 400, success = False, message = Some ''One or more gems not found'',
       data = NoData\<rparr>, s)"
proof -
  have "\<not> castObjectId ` set (map gemId (items req)) \<subseteq> gem_id ` set (gems s)"
    using assms(3) by auto
  then have "length (Gem_find_in (map gemId (items req)) (gems s)) \<noteq> length (map gemId (items req))"
    using find_in_count_iff [OF assms(2), of "map gemId (items req)"] by blast
  with assms(1) show ?thesis
    by (simp add: place_order_count_fails gems_not_found_def)
qed

theorem place_order_unknown_gem_witness:
  "place_order env0 asha unknown_gem shop =
     (\<lparr>http_status = 400, success = False, message = Some ''One or more gems not found'',
       data = NoData\<rparr>, shop)"
proof -
  have "errors unknown_gem = []" "distinct (map gem_id (gems shop))"
    "\<exists>it \<in> set (items unknown_gem). castObjectId (gemId it) \<notin> gem_id ` set (gems shop)"
    by (simp_all add: shop_defs coll_defs)
  from place_order_unknown_gem [OF this]
  show ?thesis .
qed


text \<open>
  C9: when the request passes validation and the same gem id stands on two or more
  lines, the placement fails with the message that one or more gems were not found and
  nothing is written, whatever the stock of that gem. The example orders the ruby on two
  lines, three pieces of the five in stock.
\<close>

theorem place_order_repeated_gem:
  assumes "errors req = []"
    and "distinct (map gem_id (gems s))"
    and "\<not> distinct (map gemId (items req))"
  shows "place_order e u req s =
     (\<lparr>http_status = 400, success = False, message = Some ''One or more gems not found'',
       data = NoData\<rparr>, s)"
proof -
  have "\<not> distinct (map castObjectId (map gemId (items req)))"
    using assms(3) by (auto simp only: distinct_map)
  then have "length (Gem_find_in (map gemId (items req)) (gems s)) \<noteq> length (map gemId (items req))"
    using find_in_count_iff [OF assms(2), of "map gemId (items req)"] by blast
  with assms(1) show ?thesis
    by (simp add: place_order_count_fails gems_not_found_def)
qed

theorem place_order_repeated_gem_witness:
  "Gem_findById ''64b000000000000000000001'' (gems shop) = Some ruby \<and> availability ruby \<and>
   ordered_qty ''64b000000000000000000001'' (items ruby_twice) \<le> stock ruby \<and>
   place_order env0 asha ruby_twice shop =
     (\<lparr>http_status = 400, success = False, message = Some ''One or more gems not found'',
       data = NoData\<rparr>, shop)"
proof -
  have "errors ruby_twice = []" "distinct (map gem_id (gems shop))"
    "\<not> distinct (map gemId (items ruby_twice))"
    by (simp_all add: shop_defs)
  from place_order_repeated_gem [OF this, of env0 asha]
  show ?thesis
    by (simp add: shop_defs coll_defs ordered_qty_def)
qed


text \<open>
  C3 does not hold of the handler. A request that passes validation, with distinct gem
  ids in lower-case hex digits that all resolve to available gems with enough stock,
  reaches \<open>order.save()\<close>, which throws: the answer is 500 with the message of a server
  error, and no order is stored. The claim has the order stored as pending and the
  answer 201 with identifier, status, total and creation time.
\<close>

theorem place_order_save_throws:
  assumes "errors req = []"
    and "distinct (map gem_id (gems s))"
    and "distinct (map gemId (items req))"
    and "\<forall>it \<in> set (items req). castObjectId (gemId it) = gemId it \<and>
           (\<exists>g. gems_find (gemId it) (gems s) = Some g \<and> availability g \<and> quantity it \<le> stock g)"
  shows "place_order e u req s =
     (\<lparr>http_status = 500, success = False,
       message = Some ''Server error during order creation'', data = NoData\<rparr>, s)"
proof -
  have low: "\<forall>it \<in> set (items req). castObjectId (gemId it) = gemId it"
    using assms(4) by blast
  have sub: "gemId ` set (items req) \<subseteq> gem_id ` set (gems s)"
    using assms(4) gems_find_Some_iff [of _ "gems s"] by fastforce
  have "check_stock (gems s) (items req) = None"
    using assms(4) by (intro check_stock_ok) blast
  with place_order_past_count [OF assms(1-3) low sub, of e u]
  show ?thesis
    by (simp add: order_server_error_def)
qed

theorem place_order_save_throws_witness:
  "place_order env0 asha three_rubies shop =
     (\<lparr>http_status = 500, success = False,
       message = Some ''Server error during order creation'', data = NoData\<rparr>, shop) \<and>
   orders shop = []"
proof -
  have "errors three_rubies = []" "distinct (map gem_id (gems shop))"
    "distinct (map gemId (items three_rubies))"
    "\<forall>it \<in> set (items three_rubies). castObjectId (gemId it) = gemId it \<and>
           (\<exists>g. gems_find (gemId it) (gems shop) = Some g \<and> availability g \<and>
                quantity it \<le> stock g)"
    by (simp_all add: shop_defs coll_defs)
  from place_order_save_throws [OF this, of env0 asha]
  show ?thesis
    by (simp add: shop_def)
qed




section \<open>Cancelling and fetching an order\<close>

text \<open>
  With unique gem ids, adding to the stock of gem \<open>i\<close> touches exactly the gem with that
  id, and a run of additions adds up per gem.
\<close>

lemma update_first_as_map:
  assumes "distinct (map k xs)" and "\<And>x. k (f x) = k x"
  shows "update_first (\<lambda>x. k x = i) f xs = map (\<lambda>x. if k x = i then f x else x) xs"
  using assms(1)
proof (induction xs)
  case Nil
  then show ?case by simp
next
  case (Cons x xs)
  show ?case
  proof (cases "k x = i")
    case True
    with Cons.prems have "\<forall>y \<in> set xs. k y \<noteq> i" by (auto simp: image_iff)
    then have "map (\<lambda>x. if k x = i then f x else x) xs = xs"
      by (induction xs) auto
    with True show ?thesis by simp
  next
    case False
    with Cons show ?thesis by simp
  qed
qed

lemma inc_stock_as_map:
  "distinct (map gem_id gs) \<Longrightarrow>
   inc_stock i d gs = map (\<lambda>g. if gem_id g = i then g\<lparr>stock := stock g + d\<rparr> else g) gs"
  unfolding inc_stock_def by (rule update_first_as_map) simp_all

lemma gem_id_inc_stock: "map gem_id (inc_stock i d gs) = map gem_id gs"
  unfolding inc_stock_def by (induction gs) auto

lemma restore_stock_as_map:
  "distinct (map gem_id gs) \<Longrightarrow>
   restore_stock ls gs = map (\<lambda>g. g\<lparr>stock := stock g + line_qty (gem_id g) ls\<rparr>) gs"
proof (induction ls arbitrary: gs)
  case Nil
  then show ?case by (simp add: restore_stock_def line_qty_def)
next
  case (Cons l ls)
  have d: "distinct (map gem_id (inc_stock (oi_gemId l) (oi_quantity l) gs))"
    using Cons.prems by (simp add: gem_id_inc_stock)
  have "restore_stock (l # ls) gs = restore_stock ls (inc_stock (oi_gemId l) (oi_quantity l) gs)"
    by (simp add: restore_stock_def)
  also have "\<dots> = map (\<lambda>g. g\<lparr>stock := stock g + line_qty (gem_id g) ls\<rparr>)
                     (inc_stock (oi_gemId l) (oi_quantity l) gs)"
    by (rule Cons.IH [OF d])
  also have "\<dots> = map (\<lambda>g. g\<lparr>stock := stock g + line_qty (gem_id g) (l # ls)\<rparr>) gs"
    by (simp add: inc_stock_as_map [OF Cons.prems] line_qty_def)
  finally show ?case .
qed

text \<open>
  Cancelling an order that is pending, confirmed or processing adds to every gem the
  units on the lines of that order, and on no other line.
\<close>

lemma cancel_order_restores_lines:
  assumes "Order_findOne oid u (orders s) = Some ord"
    and "status ord = pending \<or> status ord = confirmed \<or> status ord = processing"
    and "distinct (map gem_id (gems s))"
  shows "cancel_order t u oid s =
     (order_cancelled,
      s\<lparr>orders := save_cancelled t ord (orders s),
        gems := map (\<lambda>g. g\<lparr>stock := stock g +
                  line_qty (gem_id g) (OrderItem_find (order_id ord) (orderItems s))\<rparr>) (gems s)\<rparr>)"
proof -
  have st: "status ord \<noteq> cancelled" "status ord \<noteq> shipped" "status ord \<noteq> delivered"
    using assms(2) by auto
  show ?thesis
    using assms(1) st by (simp add: cancel_order_def Let_def restore_stock_as_map [OF assms(3)])
qed


text \<open>
  With a line of another order on the same gem in the database: the ruby goes from five
  to eight, by the three of the cancelled order.
\<close>

lemma cancel_order_own_lines_example:
  "\<exists>s'. cancel_order 9 asha ''ORD5ZX81P'' ((shop_with pending)\<lparr>orderItems := [asha_line, ravi_line]\<rparr>)
          = (order_cancelled, s') \<and>
        map stock (gems s') = [8, 0] \<and> map status (orders s') = [cancelled]"
  by (simp add: cancel_order_def Let_def coll_defs shop_defs restore_stock_def save_cancelled_def)




text \<open>
  C6: for the order that the request resolves to, a cancelled status is answered with
  the already-cancelled failure and a shipped or delivered status with the
  cannot-cancel failure, both leaving the whole database as it was; the cancellation
  succeeds exactly from pending, confirmed and processing.
\<close>

theorem cancel_order_guards:
  assumes "Order_findOne oid u (orders s) = Some ord"
  shows "(status ord = cancelled \<longrightarrow>
            cancel_order t u oid s =
              (\<lparr>http_status = 400, success = False,
                message = Some ''Order is already cancelled'', data = NoData\<rparr>, s)) \<and>
         (status ord = shipped \<or> status ord = delivered \<longrightarrow>
            cancel_order t u oid s =
              (\<lparr>http_status = 400, success = False,
                message = Some ''Cannot cancel order that has been shipped or delivered'',
                data = NoData\<rparr>, s)) \<and>
         (success (fst (cancel_order t u oid s)) \<longleftrightarrow>
            status ord = pending \<or> status ord = confirmed \<or> status ord = processing)"
  using assms
  by (cases "status ord")
     (simp_all add: cancel_order_def Let_def already_cancelled_def cannot_cancel_def
        order_cancelled_def)

theorem cancel_order_guards_witness:
  "cancel_order 9 asha ''ORD5ZX81P'' (shop_with cancelled) =
     (\<lparr>http_status = 400, success = False, message = Some ''Order is already cancelled'',
       data = NoData\<rparr>, shop_with cancelled) \<and>
   cancel_order 9 asha ''ORD5ZX81P'' (shop_with shipped) =
     (\<lparr>http_status = 400, success = False,
       message = Some ''Cannot cancel order that has been shipped or delivered'',
       data = NoData\<rparr>, shop_with shipped) \<and>
   cancel_order 9 asha ''ORD5ZX81P'' (shop_with delivered) =
     (\<lparr>http_status = 400, success = False,
       message = Some ''Cannot cancel order that has been shipped or delivered'',
       data = NoData\<rparr>, shop_with delivered) \<and>
   success (fst (cancel_order 9 asha ''ORD5ZX81P'' (shop_with pending)))"
proof -
  have f: "Order_findOne ''ORD5ZX81P'' asha (orders (shop_with st)) = Some (asha_order st)" for st
    by (simp add: Order_findOne_def shop_defs)
  have st: "status (asha_order st) = st" for st
    by (simp add: asha_order_def)
  from cancel_order_guards [OF f [of cancelled], of 9] cancel_order_guards [OF f [of shipped], of 9]
    cancel_order_guards [OF f [of delivered], of 9] cancel_order_guards [OF f [of pending], of 9]
  show ?thesis
    by (simp add: st)
qed


text \<open>
  C7: when every order with the requested identifier belongs to someone else, fetching
  and cancelling answer 404 with the message that the order was not found and change
  nothing; the answers are the ones the same request gets on the database without any
  order of that identifier.
\<close>

theorem foreign_order_not_found:
  assumes "\<forall>p \<in> set (orders s). orderId p = oid \<longrightarrow> userId p \<noteq> u"
  shows "get_order u oid s =
           \<lparr>http_status = 404, success = False, message = Some ''Order not found'', data = NoData\<rparr> \<and>
         cancel_order t u oid s =
           (\<lparr>http_status = 404, success = False, message = Some ''Order not found'',
             data = NoData\<rparr>, s) \<and>
         get_order u oid s = get_order u oid (s\<lparr>orders := filter (\<lambda>p. orderId p \<noteq> oid) (orders s)\<rparr>) \<and>
         fst (cancel_order t u oid s) =
           fst (cancel_order t u oid (s\<lparr>orders := filter (\<lambda>p. orderId p \<noteq> oid) (orders s)\<rparr>))"
proof -
  have none: "Order_findOne oid u ords = None"
    if "\<forall>p \<in> set ords. orderId p = oid \<longrightarrow> userId p \<noteq> u" for ords
    using that unfolding Order_findOne_def by (induction ords) auto
  have a: "Order_findOne oid u (orders s) = None"
    using assms by (rule none)
  have b: "Order_findOne oid u (filter (\<lambda>p. orderId p \<noteq> oid) (orders s)) = None"
    by (rule none) simp
  show ?thesis
    using a b by (simp add: get_order_def cancel_order_def order_not_found_def)
qed

theorem foreign_order_not_found_witness:
  "get_order asha ''ORD5ZX81P'' (shop_with pending) \<noteq> get_order ravi ''ORD5ZX81P'' (shop_with pending) \<and>
   get_order ravi ''ORD5ZX81P'' (shop_with pending) =
     \<lparr>http_status = 404, success = False, message = Some ''Order not found'', data = NoData\<rparr> \<and>
   cancel_order 9 ravi ''ORD5ZX81P'' (shop_with pending) =
     (\<lparr>http_status = 404, success = False, message = Some ''Order not found'', data = NoData\<rparr>,
      shop_with pending) \<and>
   get_order ravi ''ORD5ZX81P'' (shop_with pending) = get_order ravi ''ORD5ZX81P'' shop"
proof -
  have h: "\<forall>p \<in> set (orders (shop_with pending)). orderId p = ''ORD5ZX81P'' \<longrightarrow> userId p \<noteq> ravi"
    by (simp add: shop_defs)
  have own: "http_status (get_order asha ''ORD5ZX81P'' (shop_with pending)) = 200"
    by (simp add: get_order_def Order_findOne_def shop_defs)
  have e: "(shop_with pending)\<lparr>orders := filter (\<lambda>p. orderId p \<noteq> ''ORD5ZX81P'') (orders (shop_with pending))\<rparr>
           = shop\<lparr>orderItems := [asha_line]\<rparr>"
    by (simp add: shop_defs)
  have g: "get_order ravi ''ORD5ZX81P'' (shop\<lparr>orderItems := [asha_line]\<rparr>) = get_order ravi ''ORD5ZX81P'' shop"
    by (simp add: get_order_def Order_findOne_def shop_def)
  from foreign_order_not_found [OF h, of 9] own e g
  show ?thesis
    by auto
qed

section \<open>The cart and the login\<close>

lemma find_SomeD: "find P xs = Some x \<Longrightarrow> x \<in> set xs \<and> P x"
  by (induction xs) (auto split: if_splits)

lemma find_NoneD: "find P xs = None \<Longrightarrow> \<forall>x \<in> set xs. \<not> P x"
  by (induction xs) (auto split: if_splits)

lemma round53_safe: "\<bar>x\<bar> < 2 ^ 53 \<Longrightarrow> round53 x = x"
  by (simp add: round53_def)


text \<open>
  C8, as stated: every request to add a gem that is already in the user's cart raises the
  quantity of the cart item by the requested quantity. The handler first checks the gem:
  Asha has two rubies in her cart, five are in stock, and her request for six more is
  turned down with the cart left as it was.
\<close>

theorem add_to_cart_rejected_counterexample:
  "CartItem_findOne asha (castObjectId (cr_gemId add_six_rubies)) (cartItems shop) = Some asha_cart \<and>
   ci_quantity asha_cart = 2 \<and> cr_quantity add_six_rubies = JNum 6 \<and>
   add_to_cart env0 asha add_six_rubies shop =
     (\<lparr>http_status = 400, success = False,
       message = Some ''Gem is not available or insufficient stock'', data = NoData\<rparr>, shop)"
  by (simp add: add_to_cart_def coll_defs shop_defs gem_unavailable_def js_less_def to_number_def)


text \<open>
  A quantity sent as a string: \<open>+=\<close> joins the strings, and two rubies and "1" make 21.
\<close>

lemma add_to_cart_string_quantity_example:
  "\<exists>r s'. add_to_cart env0 asha add_one_ruby_text shop = (r, s') \<and> success r \<and>
          map ci_quantity (cartItems s') = [21]"
  by (simp add: add_to_cart_def coll_defs shop_defs js_less_def to_number_def parse_int_def
        digit_of_def round53_def js_plus_def castNumber_def show_int_def digit_char_def
        item_added_def)


text \<open>
  C8, amended: in a cart collection with at most one item per user and gem, a request
  that passes validation with its quantity sent as a number, for a gem that exists, is
  available and has at least the requested quantity in stock, succeeds and keeps at most
  one item per user and gem: the item the user already has for the gem gets the
  requested quantity added, and no item is created; without such an item, one with the
  requested quantity is appended. The cart items have unique \<open>_id\<close>s, and the sums stay
  below \<open>2 ^ 53\<close>, where doubles add exactly.
\<close>

theorem add_to_cart_increment_or_create:
  assumes uniq: "cart_unique (cartItems s)"
    and ids: "distinct (map ci_id (cartItems s))"
    and valid: "cr_errors req = []"
    and num: "cr_quantity req = JNum q"
    and gem: "Gem_findById (cr_gemId req) (gems s) = Some g"
    and avail: "availability g" "q \<le> stock g"
    and safe: "\<forall>c \<in> set (cartItems s). \<bar>ci_quantity c + q\<bar> < 2 ^ 53"
  shows "\<exists>r s'. add_to_cart e u req s = (r, s') \<and> success r \<and> cart_unique (cartItems s') \<and>
           (case CartItem_findOne u (castObjectId (cr_gemId req)) (cartItems s) of
              Some c \<Rightarrow>
                cartItems s' =
                  map (\<lambda>x. if x = c then c\<lparr>ci_quantity := ci_quantity c + q\<rparr> else x)
                    (cartItems s)
            | None \<Rightarrow>
                cartItems s' = cartItems s @
                  [\<lparr>ci_id = new_id e, ci_userId = u, ci_gemId = castObjectId (cr_gemId req),
                    ci_quantity = q, ci_createdAt = now e\<rparr>])"
proof (cases "CartItem_findOne u (castObjectId (cr_gemId req)) (cartItems s)")
  case None
  let ?c = "\<lparr>ci_id = new_id e, ci_userId = u, ci_gemId = castObjectId (cr_gemId req),
             ci_quantity = q, ci_createdAt = now e\<rparr>"
  from None have "\<forall>x \<in> set (cartItems s).
      \<not> (ci_userId x = u \<and> ci_gemId x = castObjectId (cr_gemId req))"
    unfolding CartItem_findOne_def by (rule find_NoneD)
  then have "(u, castObjectId (cr_gemId req))
      \<notin> set (map (\<lambda>c. (ci_userId c, ci_gemId c)) (cartItems s))"
    by auto
  with uniq have "cart_unique (cartItems s @ [?c])"
    by (simp add: cart_unique_def)
  moreover have "add_to_cart e u req s = (item_added ?c, s\<lparr>cartItems := cartItems s @ [?c]\<rparr>)"
    using valid gem avail None num
    by (simp add: add_to_cart_def Let_def js_less_def to_number_def castNumber_def)
  ultimately show ?thesis
    using None by (simp add: item_added_def)
next
  case (Some c)
  let ?n = "ci_quantity c + q"
  let ?cs = "map (\<lambda>x. if x = c then c\<lparr>ci_quantity := ?n\<rparr> else x) (cartItems s)"
  from Some have c: "c \<in> set (cartItems s)"
    unfolding CartItem_findOne_def by (simp add: find_SomeD)
  with safe have r: "round53 ?n = ?n"
    by (simp add: round53_safe)
  have "update_first (\<lambda>x. ci_id x = ci_id c) (\<lambda>x. x\<lparr>ci_quantity := ?n\<rparr>) (cartItems s)
        = map (\<lambda>x. if ci_id x = ci_id c then x\<lparr>ci_quantity := ?n\<rparr> else x) (cartItems s)"
    using ids by (rule update_first_as_map) simp
  also have "\<dots> = ?cs"
  proof (rule map_cong [OF refl])
    fix x assume "x \<in> set (cartItems s)"
    with c ids have "ci_id x = ci_id c \<longleftrightarrow> x = c"
      by (auto simp: distinct_map dest: inj_onD)
    then show "(if ci_id x = ci_id c then x\<lparr>ci_quantity := ?n\<rparr> else x)
             = (if x = c then c\<lparr>ci_quantity := ?n\<rparr> else x)"
      by auto
  qed
  finally have upd: "update_first (\<lambda>x. ci_id x = ci_id c) (\<lambda>x. x\<lparr>ci_quantity := ?n\<rparr>)
                       (cartItems s) = ?cs" .
  have "map (\<lambda>c. (ci_userId c, ci_gemId c))
          (map (\<lambda>x. if x = c then c\<lparr>ci_quantity := ?n\<rparr> else x) xs)
        = map (\<lambda>c. (ci_userId c, ci_gemId c)) xs" for xs
    by (induction xs) auto
  with uniq have "cart_unique ?cs"
    by (simp only: cart_unique_def)
  moreover have "add_to_cart e u req s =
      (item_added (c\<lparr>ci_quantity := ?n\<rparr>), s\<lparr>cartItems := ?cs\<rparr>)"
    using valid gem avail Some num
    by (simp add: add_to_cart_def Let_def js_less_def to_number_def castNumber_def js_plus_def
          r upd)
  ultimately show ?thesis
    using Some by (simp add: item_added_def)
qed

theorem add_to_cart_increment_or_create_witness:
  "(\<exists>r s'. add_to_cart env0 asha add_one_ruby shop = (r, s') \<and> success r \<and>
       cart_unique (cartItems s') \<and> cartItems s' = [asha_cart\<lparr>ci_quantity := 3\<rparr>]) \<and>
   (\<exists>r s'. add_to_cart env0 ravi add_one_ruby shop = (r, s') \<and> success r \<and>
       cart_unique (cartItems s') \<and> map ci_userId (cartItems s') = [asha, ravi] \<and>
       map ci_quantity (cartItems s') = [2, 1])"
proof -
  have h: "cart_unique (cartItems shop)" "distinct (map ci_id (cartItems shop))"
    "cr_errors add_one_ruby = []" "cr_quantity add_one_ruby = JNum 1"
    "Gem_findById (cr_gemId add_one_ruby) (gems shop) = Some ruby"
    "availability ruby" "1 \<le> stock ruby"
    "\<forall>c \<in> set (cartItems shop). \<bar>ci_quantity c + 1\<bar> < 2 ^ 53"
    by (simp_all add: shop_defs cart_unique_def coll_defs)
  have a: "CartItem_findOne asha (castObjectId (cr_gemId add_one_ruby)) (cartItems shop)
           = Some asha_cart"
    and b: "CartItem_findOne ravi (castObjectId (cr_gemId add_one_ruby)) (cartItems shop) = None"
    by (simp_all add: coll_defs shop_defs)
  from add_to_cart_increment_or_create [OF h, of env0 asha]
  have "\<exists>r s'. add_to_cart env0 asha add_one_ruby shop = (r, s') \<and> success r \<and>
       cart_unique (cartItems s') \<and> cartItems s' = [asha_cart\<lparr>ci_quantity := 3\<rparr>]"
    by (simp add: a) (simp add: shop_defs)
  moreover from add_to_cart_increment_or_create [OF h, of env0 ravi]
  have "\<exists>r s'. add_to_cart env0 ravi add_one_ruby shop = (r, s') \<and> success r \<and>
       cart_unique (cartItems s') \<and> map ci_userId (cartItems s') = [asha, ravi] \<and>
       map ci_quantity (cartItems s') = [2, 1]"
    by (simp add: b) (auto simp: shop_defs)
  ultimately show ?thesis by simp
qed


text \<open>
  C10: of two logins that pass validation, one with an address that no user has and one
  with a user's address and a password that does not match, both get the same answer:
  401, the message of invalid credentials, and nothing else.
\<close>

theorem login_failures_indistinguishable:
  assumes "l_errors r1 = []" and "l_errors r2 = []"
    and "User_findOne (l_email r1) (users s) = None"
    and "User_findOne (l_email r2) (users s) = Some usr"
    and "\<not> comparePassword usr (l_password r2)"
  shows "login comparePassword generateToken r1 s = login comparePassword generateToken r2 s \<and>
         login comparePassword generateToken r1 s =
           \<lparr>http_status = 401, success = False, message = Some ''Invalid credentials'',
            data = NoData\<rparr>"
  using assms by (simp add: login_def invalid_credentials_def)

theorem login_failures_indistinguishable_witness:
  "login plain_compare plain_token login_nobody shop = login plain_compare plain_token login_wrong shop \<and>
   login plain_compare plain_token login_wrong shop =
     \<lparr>http_status = 401, success = False, message = Some ''Invalid credentials'', data = NoData\<rparr> \<and>
   l_email login_nobody \<noteq> l_email login_wrong"
proof -
  have "l_errors login_nobody = []" "l_errors login_wrong = []"
    "User_findOne (l_email login_nobody) (users shop) = None"
    "User_findOne (l_email login_wrong) (users shop) = Some asha_user"
    "\<not> plain_compare asha_user (l_password login_wrong)"
    by (simp_all add: shop_defs User_findOne_def)
  from login_failures_indistinguishable
         [of login_nobody login_wrong shop asha_user plain_compare plain_token, OF this]
  have same: "login plain_compare plain_token login_nobody shop
              = login plain_compare plain_token login_wrong shop"
    and resp: "login plain_compare plain_token login_nobody shop =
      \<lparr>http_status = 401, success = False, message = Some ''Invalid credentials'',
       data = NoData\<rparr>"
    by blast+
  have "l_email login_nobody \<noteq> l_email login_wrong"
    by (simp add: login_nobody_def login_wrong_def)
  with same resp show ?thesis
    by simp
qed

end
